theory Spec2Isabelle
  imports Complex_Main
begin

section \<open>Python values and exceptions\<close>

text \<open>
  The retrieval code of \<^verbatim>\<open>wandbot/chat/retriever.py\<close> handles two kinds of dynamically
  typed data: the decoded JSON body of the web search response and the metadata dictionary
  of a node. Both are modelled by one datatype of Python values. A dictionary is an
  association list in insertion order; looking a key up takes its first binding.
  Strings are lists of 8-bit characters, read as the code points 0 to 255.
\<close>

datatype pyval =
    PNone
  | PBool bool
  | PInt int
  | PFloat real
  | PStr string
  | PList "pyval list"
  | PDict "(string \<times> pyval) list"

datatype error =
    KeyError
  | TypeError
  | AttributeError
  | IndexError
  | ValidationError
  | RequestException
  | JSONDecodeError
  | RerankError

text \<open>Sequencing of a computation that may raise: the first exception wins.\<close>

definition and_then :: "error + 'a \<Rightarrow> ('a \<Rightarrow> error + 'b) \<Rightarrow> error + 'b" where
  "and_then m f = (case m of Inl e \<Rightarrow> Inl e | Inr x \<Rightarrow> f x)"

text \<open>A list comprehension whose element expression may raise.\<close>

fun comprehension :: "('a \<Rightarrow> error + 'b) \<Rightarrow> 'a list \<Rightarrow> error + 'b list" where
  "comprehension f [] = Inr []"
| "comprehension f (x # xs) =
     (case f x of
        Inl e \<Rightarrow> Inl e
      | Inr y \<Rightarrow> (case comprehension f xs of Inl e \<Rightarrow> Inl e | Inr ys \<Rightarrow> Inr (y # ys)))"

text \<open>\<^verbatim>\<open>d[key]\<close> on a dictionary.\<close>

definition dict_getitem :: "(string \<times> pyval) list \<Rightarrow> string \<Rightarrow> error + pyval" where
  "dict_getitem d k = (case map_of d k of None \<Rightarrow> Inl KeyError | Some v \<Rightarrow> Inr v)"

text \<open>\<^verbatim>\<open>v[key]\<close> with a string key on any value: only a dictionary can be subscripted so.\<close>

fun py_getitem :: "pyval \<Rightarrow> string \<Rightarrow> error + pyval" where
  "py_getitem (PDict d) k = dict_getitem d k"
| "py_getitem _ k = Inl TypeError"

text \<open>The keys of a dictionary, each once, in insertion order.\<close>

definition dict_keys :: "(string \<times> pyval) list \<Rightarrow> string list" where
  "dict_keys d = rev (remdups (rev (map fst d)))"

text \<open>
  \<^verbatim>\<open>for x in v\<close>: a list yields its elements, a string its characters as one-character
  strings, a dictionary its keys; nothing else is iterable.
\<close>

fun py_iter :: "pyval \<Rightarrow> error + pyval list" where
  "py_iter (PList xs) = Inr xs"
| "py_iter (PStr s) = Inr (map (\<lambda>c. PStr [c]) s)"
| "py_iter (PDict d) = Inr (map PStr (dict_keys d))"
| "py_iter _ = Inl TypeError"

text \<open>\<^verbatim>\<open>xs[:k]\<close>: a negative bound counts from the end.\<close>

definition slice_to :: "'a list \<Rightarrow> int \<Rightarrow> 'a list" where
  "slice_to xs k =
     (if 0 \<le> k then take (nat k) xs else take (length xs - nat (- k)) xs)"

text \<open>\<^verbatim>\<open>[x] * k\<close>: empty for \<open>k \<le> 0\<close>.\<close>

definition list_times :: "'a \<Rightarrow> int \<Rightarrow> 'a list" where
  "list_times x k = replicate (nat k) x"

subsection \<open>\<^verbatim>\<open>str.lower\<close> and \<^verbatim>\<open>str.strip\<close>\<close>

text \<open>
  On the code points 0 to 255, \<^verbatim>\<open>lower\<close> maps A to Z and the capital letters
  0xC0 to 0xDE (the multiplication sign 0xD7 apart) 32 places up, and \<^verbatim>\<open>strip\<close>
  removes from both ends the characters that \<^verbatim>\<open>isspace\<close> accepts.
\<close>

definition lower_char :: "char \<Rightarrow> char" where
  "lower_char c =
     (let n = (of_char c :: nat)
      in if (65 \<le> n \<and> n \<le> 90) \<or> (192 \<le> n \<and> n \<le> 222 \<and> n \<noteq> 215)
         then char_of (n + 32) else c)"

definition isspace :: "char \<Rightarrow> bool" where
  "isspace c =
     (let n = (of_char c :: nat)
      in (9 \<le> n \<and> n \<le> 13) \<or> (28 \<le> n \<and> n \<le> 32) \<or> n = 133 \<or> n = 160)"

definition lower :: "string \<Rightarrow> string" where
  "lower s = map lower_char s"

definition strip :: "string \<Rightarrow> string" where
  "strip s = rev (dropWhile isspace (rev (dropWhile isspace s)))"

section \<open>Nodes\<close>

text \<open>
  A \<^verbatim>\<open>TextNode\<close> has an id, a text and a metadata dictionary; a \<^verbatim>\<open>NodeWithScore\<close>
  pairs a node with an optional score. Scores are only carried, never computed with.
\<close>

record TextNode =
  node_id :: string
  node_text :: string
  metadata :: "(string \<times> pyval) list"

record NodeWithScore =
  node :: TextNode
  score :: "real option"

text \<open>\<^verbatim>\<open>NodeWithScore.get_score\<close>: a missing score reads as 0.\<close>

definition get_score :: "NodeWithScore \<Rightarrow> real" where
  "get_score n = (case score n of None \<Rightarrow> 0 | Some s \<Rightarrow> s)"

section \<open>External collaborators\<close>

record web_request =
  req_api_key :: string
  req_query :: string
  req_num_web_results :: int

text \<open>
  What \<^verbatim>\<open>requests.get\<close> and \<^verbatim>\<open>response.json()\<close> give: the call raises, or there is a
  status code and a body that decodes to a value or does not.
\<close>

datatype http_response =
    ConnectionFailed
  | Response int "pyval option"

text \<open>
  The services the retriever calls, as parameters: what the \<^verbatim>\<open>retrieve\<close> of the lexical
  and of the vector retriever of the index returns (query and \<^verbatim>\<open>similarity_top_k\<close>),
  the web search endpoint, the validation of a \<^verbatim>\<open>TextNode\<close>'s text field (None when it
  is rejected), the ids given to new nodes, the hash of a node (\<^verbatim>\<open>TextNode.hash\<close>, a
  digest of its text and metadata, of any type \<open>'h\<close>), and the Cohere re-ranker (model,
  \<^verbatim>\<open>top_n\<close>, query, nodes).

  \<^verbatim>\<open>create_no_result_dummy_node\<close> of \<^verbatim>\<open>wandbot.utils\<close> is not among the sources;
  its result, the sentinel that pads a short list, is a parameter too: the field
  \<open>no_result_dummy_node\<close>, any node.
\<close>

record 'h collaborators =
  bm25_retrieve :: "string \<Rightarrow> int \<Rightarrow> NodeWithScore list"
  vector_retrieve :: "string \<Rightarrow> int \<Rightarrow> NodeWithScore list"
  you_search :: "web_request \<Rightarrow> http_response"
  validate_text :: "pyval \<Rightarrow> string option"
  new_node_id :: "nat \<Rightarrow> string"
  node_hash :: "TextNode \<Rightarrow> 'h"
  cohere_rerank :: "string \<Rightarrow> int \<Rightarrow> string \<Rightarrow> NodeWithScore list \<Rightarrow> error + NodeWithScore list"
  no_result_dummy_node :: NodeWithScore

section \<open>LanguageFilterPostprocessor\<close>

record LanguageFilterPostprocessor =
  languages :: "string list"
  lf_min_result_size :: int

text \<open>\<^verbatim>\<open>node.metadata["language"] in self.languages\<close>\<close>

definition language_in :: "string list \<Rightarrow> NodeWithScore \<Rightarrow> error + bool" where
  "language_in ls n =
     and_then (dict_getitem (metadata (node n)) ''language'')
       (\<lambda>v. Inr (v \<in> set (map PStr ls)))"

text \<open>The loop that collects the matching nodes, \<open>new_nodes\<close> being the accumulator.\<close>

fun language_loop ::
  "string list \<Rightarrow> NodeWithScore list \<Rightarrow> NodeWithScore list \<Rightarrow> error + NodeWithScore list" where
  "language_loop ls [] new_nodes = Inr new_nodes"
| "language_loop ls (n # ns) new_nodes =
     (case language_in ls n of
        Inl e \<Rightarrow> Inl e
      | Inr b \<Rightarrow> language_loop ls ns (if b then new_nodes @ [n] else new_nodes))"

definition LanguageFilterPostprocessor_postprocess_nodes ::
  "LanguageFilterPostprocessor \<Rightarrow> NodeWithScore list \<Rightarrow> error + NodeWithScore list" where
  "LanguageFilterPostprocessor_postprocess_nodes self nodes =
     and_then (language_loop (languages self) nodes [])
       (\<lambda>new_nodes.
          if int (length new_nodes) < lf_min_result_size self
          then Inr (new_nodes @ slice_to nodes (lf_min_result_size self - int (length new_nodes)))
          else Inr new_nodes)"

section \<open>MetadataPostprocessor\<close>

record MetadataPostprocessor =
  mp_min_result_size :: int
  include_tags :: "string list option"
  exclude_tags :: "string list option"

text \<open>Truth value of an optional list: None and the empty list are false.\<close>

definition truthy :: "'a list option \<Rightarrow> bool" where
  "truthy xs = (case xs of None \<Rightarrow> False | Some ys \<Rightarrow> ys \<noteq> [])"

definition the_list :: "'a list option \<Rightarrow> 'a list" where
  "the_list xs = (case xs of None \<Rightarrow> [] | Some ys \<Rightarrow> ys)"

text \<open>\<^verbatim>\<open>tag.lower().strip()\<close> on a string\<close>

definition normalize :: "string \<Rightarrow> string" where
  "normalize tag = strip (lower tag)"

text \<open>The same on a metadata value: only a string has the method \<^verbatim>\<open>lower\<close>.\<close>

fun normalize_value :: "pyval \<Rightarrow> error + string" where
  "normalize_value (PStr s) = Inr (normalize s)"
| "normalize_value _ = Inl AttributeError"

text \<open>\<^verbatim>\<open>[tag.lower().strip() for tag in node.metadata["tags"]]\<close>\<close>

definition normalized_tags :: "NodeWithScore \<Rightarrow> error + string list" where
  "normalized_tags n =
     and_then (dict_getitem (metadata (node n)) ''tags'')
       (\<lambda>v. and_then (py_iter v) (comprehension normalize_value))"

text \<open>One pass of the loop body: does the node reach \<^verbatim>\<open>new_nodes.append(node)\<close>?\<close>

definition tags_admit :: "MetadataPostprocessor \<Rightarrow> NodeWithScore \<Rightarrow> error + bool" where
  "tags_admit self n =
     and_then (normalized_tags n)
       (\<lambda>tags.
          if truthy (include_tags self)
             \<and> \<not> set (map normalize (the_list (include_tags self))) \<subseteq> set tags
          then Inr False
          else if truthy (exclude_tags self)
             \<and> set (map normalize (the_list (exclude_tags self))) \<subseteq> set tags
          then Inr False
          else Inr True)"

fun metadata_loop ::
  "MetadataPostprocessor \<Rightarrow> NodeWithScore list \<Rightarrow> NodeWithScore list \<Rightarrow> error + NodeWithScore list" where
  "metadata_loop self [] new_nodes = Inr new_nodes"
| "metadata_loop self (n # ns) new_nodes =
     (case tags_admit self n of
        Inl e \<Rightarrow> Inl e
      | Inr b \<Rightarrow> metadata_loop self ns (if b then new_nodes @ [n] else new_nodes))"

definition MetadataPostprocessor_postprocess_nodes ::
  "NodeWithScore \<Rightarrow> MetadataPostprocessor \<Rightarrow> NodeWithScore list \<Rightarrow> error + NodeWithScore list" where
  "MetadataPostprocessor_postprocess_nodes dummy_node self nodes =
     (if \<not> truthy (include_tags self) \<and> \<not> truthy (exclude_tags self) then Inr nodes
      else and_then (metadata_loop self nodes [])
        (\<lambda>new_nodes.
           if int (length new_nodes) < mp_min_result_size self
           then Inr (new_nodes @ list_times dummy_node (mp_min_result_size self - int (length new_nodes)))
           else Inr new_nodes))"

section \<open>YouRetriever\<close>

record YouRetriever =
  api_key :: string
  you_similarity_top_k :: int

text \<open>
  \<^verbatim>\<open>__init__\<close>: the key is the argument or, when that is None or empty, the environment
  variable \<^verbatim>\<open>YOU_API_KEY\<close> (a KeyError when unset); \<^verbatim>\<open>similarity_top_k\<close> is cut
  down to 20.
\<close>

definition YouRetriever_init :: "string option \<Rightarrow> string option \<Rightarrow> int \<Rightarrow> error + YouRetriever" where
  "YouRetriever_init key environ_key similarity_top_k =
     and_then
       (if truthy key then Inr (the_list key)
        else (case environ_key of None \<Rightarrow> Inl KeyError | Some k \<Rightarrow> Inr k))
       (\<lambda>k. Inr \<lparr>api_key = k,
                 you_similarity_top_k = (if similarity_top_k \<le> 20 then similarity_top_k else 20)\<rparr>)"

definition you_request :: "YouRetriever \<Rightarrow> string \<Rightarrow> web_request" where
  "you_request self query_str =
     \<lparr>req_api_key = api_key self,
      req_query = ''Weights & Biases, W&B, wandb or Weave '' @ query_str,
      req_num_web_results = you_similarity_top_k self\<rparr>"

definition hit_snippets :: "pyval \<Rightarrow> error + pyval" where
  "hit_snippets hit = py_getitem hit ''snippets''"

definition hit_metadata :: "pyval \<Rightarrow> error + (string \<times> pyval) list" where
  "hit_metadata hit =
     and_then (py_getitem hit ''url'') (\<lambda>url.
     and_then (py_getitem hit ''description'') (\<lambda>description.
     and_then (py_getitem hit ''title'') (\<lambda>title.
       Inr [(''source'', url),
            (''language'', PStr ''en''),
            (''description'', description),
            (''title'', title),
            (''tags'', PList [PStr ''you.com''])])))"

text \<open>The nested loop over \<^verbatim>\<open>zip(snippets, snippet_metadata)\<close>.\<close>

fun search_hits_loop ::
  "(pyval \<times> (string \<times> pyval) list) list \<Rightarrow> (pyval \<times> (string \<times> pyval) list) list
     \<Rightarrow> error + (pyval \<times> (string \<times> pyval) list) list" where
  "search_hits_loop [] search_hits = Inr search_hits"
| "search_hits_loop ((snippet_list, md) # rest) search_hits =
     (case py_iter snippet_list of
        Inl e \<Rightarrow> Inl e
      | Inr snippets \<Rightarrow>
          search_hits_loop rest (search_hits @ map (\<lambda>snippet. (snippet, md)) snippets))"

text \<open>
  \<^verbatim>\<open>NodeWithScore(node=TextNode(text=s[0], metadata=s[1]), score=1.0)\<close> for the
  \<open>i\<close>-th search hit.
\<close>

definition make_node :: "'h collaborators \<Rightarrow> nat \<times> pyval \<times> (string \<times> pyval) list \<Rightarrow> error + NodeWithScore" where
  "make_node w p =
     (case validate_text w (fst (snd p)) of
        None \<Rightarrow> Inl ValidationError
      | Some t \<Rightarrow>
          Inr \<lparr>node = \<lparr>node_id = new_node_id w (fst p), node_text = t, metadata = snd (snd p)\<rparr>,
               score = Some 1\<rparr>)"

text \<open>Everything after \<^verbatim>\<open>results = response.json()\<close>.\<close>

definition nodes_of_results :: "'h collaborators \<Rightarrow> pyval \<Rightarrow> error + NodeWithScore list" where
  "nodes_of_results w results =
     and_then (py_getitem results ''hits'') (\<lambda>hits_value.
     and_then (py_iter hits_value) (\<lambda>hits.
     and_then (comprehension hit_snippets hits) (\<lambda>snippets.
     and_then (comprehension hit_metadata hits) (\<lambda>snippet_metadata.
     and_then (search_hits_loop (zip snippets snippet_metadata) []) (\<lambda>search_hits.
       comprehension (make_node w) (enumerate 0 search_hits))))))"

text \<open>The body of the \<^verbatim>\<open>try\<close>.\<close>

definition YouRetriever_try :: "'h collaborators \<Rightarrow> YouRetriever \<Rightarrow> string \<Rightarrow> error + NodeWithScore list" where
  "YouRetriever_try w self query_str =
     (case you_search w (you_request self query_str) of
        ConnectionFailed \<Rightarrow> Inl RequestException
      | Response status_code body \<Rightarrow>
          if status_code \<noteq> 200 then Inr []
          else (case body of
                  None \<Rightarrow> Inl JSONDecodeError
                | Some results \<Rightarrow> nodes_of_results w results))"

text \<open>
  The method \<^verbatim>\<open>_retrieve\<close>: any exception of the body gives the empty list. The second
  component lists the requests sent to the web search endpoint, here always the one
  request.
\<close>

definition YouRetriever_retrieve ::
  "'h collaborators \<Rightarrow> YouRetriever \<Rightarrow> string \<Rightarrow> NodeWithScore list \<times> web_request list" where
  "YouRetriever_retrieve w self query_str =
     ((case YouRetriever_try w self query_str of Inl e \<Rightarrow> [] | Inr nodes \<Rightarrow> nodes),
      [you_request self query_str])"

text \<open>
  Modelled, not translated: \<^verbatim>\<open>YouRetriever\<close> defines no \<^verbatim>\<open>retrieve\<close>; the call
  \<^verbatim>\<open>self.you_retriever.retrieve(query)\<close> runs the method inherited from the library's
  \<^verbatim>\<open>BaseRetriever\<close>, which is not among the sources. That method calls \<^verbatim>\<open>_retrieve\<close>
  and returns of its nodes, in their order, the first of every hash, the later nodes of a
  hash already seen being dropped (\<^verbatim>\<open>n.node.hash in seen or seen.add(n.node.hash)\<close>);
  text nodes, the only nodes built here, are not expanded. The hash is a parameter.
\<close>

fun unique_hash_loop :: "(TextNode \<Rightarrow> 'h) \<Rightarrow> NodeWithScore list \<Rightarrow> 'h set \<Rightarrow> NodeWithScore list" where
  "unique_hash_loop h [] seen = []"
| "unique_hash_loop h (n # ns) seen =
     (if h (node n) \<in> seen then unique_hash_loop h ns seen
      else n # unique_hash_loop h ns (insert (h (node n)) seen))"

definition BaseRetriever_retrieve ::
  "'h collaborators \<Rightarrow> YouRetriever \<Rightarrow> string \<Rightarrow> NodeWithScore list \<times> web_request list" where
  "BaseRetriever_retrieve w self query_str =
     (let r = YouRetriever_retrieve w self query_str
      in (unique_hash_loop (node_hash w) (fst r) {}, snd r))"

section \<open>HybridRetriever\<close>

record HybridRetriever =
  hr_similarity_top_k :: int
  you_retriever :: YouRetriever

definition HybridRetriever_init :: "string option \<Rightarrow> int \<Rightarrow> error + HybridRetriever" where
  "HybridRetriever_init environ_key similarity_top_k =
     and_then (YouRetriever_init environ_key environ_key similarity_top_k)
       (\<lambda>you. Inr \<lparr>hr_similarity_top_k = similarity_top_k, you_retriever = you\<rparr>)"

text \<open>
  \<^verbatim>\<open>HybridRetriever.retrieve\<close> is overridden in the source: it wraps \<^verbatim>\<open>_retrieve\<close> in
  callback events and returns its nodes, so it is not modelled apart. The web retriever is
  called through the \<^verbatim>\<open>retrieve\<close> it inherits.

  The loop that combines the lists, with its two accumulators.
\<close>

fun combine_loop ::
  "NodeWithScore list \<Rightarrow> NodeWithScore list \<Rightarrow> string set \<Rightarrow> NodeWithScore list" where
  "combine_loop [] all_nodes node_ids = all_nodes"
| "combine_loop (n # ns) all_nodes node_ids =
     (if node_id (node n) \<notin> node_ids
      then combine_loop ns (all_nodes @ [n]) (insert (node_id (node n)) node_ids)
      else combine_loop ns all_nodes node_ids)"

definition HybridRetriever_retrieve ::
  "'h collaborators \<Rightarrow> HybridRetriever \<Rightarrow> string \<Rightarrow> bool \<Rightarrow> NodeWithScore list \<times> web_request list" where
  "HybridRetriever_retrieve w self query_str avoid =
     (let bm25_nodes = bm25_retrieve w query_str (hr_similarity_top_k self);
          vector_nodes = vector_retrieve w query_str (hr_similarity_top_k self);
          you = (if \<not> avoid then BaseRetriever_retrieve w (you_retriever self) query_str
                 else ([], []))
      in (combine_loop (bm25_nodes @ vector_nodes @ fst you) [] {}, snd you))"

section \<open>WandbRetrieverQueryEngine\<close>

datatype postprocessor =
    Metadata MetadataPostprocessor
  | LanguageFilter LanguageFilterPostprocessor
  | CohereRerank int string

record WandbRetrieverQueryEngine =
  qe_retriever :: HybridRetriever
  node_postprocessors :: "postprocessor list"

fun postprocess_nodes ::
  "'h collaborators \<Rightarrow> string \<Rightarrow> postprocessor \<Rightarrow> NodeWithScore list \<Rightarrow> error + NodeWithScore list" where
  "postprocess_nodes w query_str (Metadata p) nodes =
     MetadataPostprocessor_postprocess_nodes (no_result_dummy_node w) p nodes"
| "postprocess_nodes w query_str (LanguageFilter p) nodes =
     LanguageFilterPostprocessor_postprocess_nodes p nodes"
| "postprocess_nodes w query_str (CohereRerank top_n model) nodes =
     cohere_rerank w model top_n query_str nodes"

fun apply_node_postprocessors ::
  "'h collaborators \<Rightarrow> string \<Rightarrow> postprocessor list \<Rightarrow> NodeWithScore list \<Rightarrow> error + NodeWithScore list" where
  "apply_node_postprocessors w query_str [] nodes = Inr nodes"
| "apply_node_postprocessors w query_str (p # ps) nodes =
     (case postprocess_nodes w query_str p nodes of
        Inl e \<Rightarrow> Inl e
      | Inr nodes' \<Rightarrow> apply_node_postprocessors w query_str ps nodes')"

definition WandbRetrieverQueryEngine_retrieve ::
  "'h collaborators \<Rightarrow> WandbRetrieverQueryEngine \<Rightarrow> string \<Rightarrow> bool
     \<Rightarrow> (error + NodeWithScore list) \<times> web_request list" where
  "WandbRetrieverQueryEngine_retrieve w self query_str avoid =
     (let r = HybridRetriever_retrieve w (qe_retriever self) query_str avoid
      in (apply_node_postprocessors w query_str (node_postprocessors self) (fst r), snd r))"

section \<open>Retriever\<close>

record RetrieverConfig =
  cfg_top_k :: int
  cfg_similarity_top_k :: int
  cfg_language :: string

record Retriever =
  config :: RetrieverConfig
  retriever :: HybridRetriever
  is_avoid_query :: "bool option"

text \<open>The arguments of \<^verbatim>\<open>retrieve\<close> after the query; \<^verbatim>\<open>is_avoid_query\<close> defaults to False.\<close>

record retrieve_args =
  arg_language :: "string option"
  arg_top_k :: "int option"
  arg_include_tags :: "string list option"
  arg_exclude_tags :: "string list option"
  arg_is_avoid_query :: "bool option"

definition default_args :: retrieve_args where
  "default_args =
     \<lparr>arg_language = None, arg_top_k = None, arg_include_tags = None,
      arg_exclude_tags = None, arg_is_avoid_query = Some False\<rparr>"

record retrieval =
  out_text :: string
  out_metadata :: "(string \<times> pyval) list"
  out_score :: real

text \<open>\<^verbatim>\<open>x or d\<close> for an optional integer, an optional string and an optional truth value.\<close>

definition or_int :: "int option \<Rightarrow> int \<Rightarrow> int" where
  "or_int x d = (case x of None \<Rightarrow> d | Some k \<Rightarrow> if k = 0 then d else k)"

definition or_str :: "string option \<Rightarrow> string \<Rightarrow> string" where
  "or_str x d = (case x of None \<Rightarrow> d | Some s \<Rightarrow> if s = [] then d else s)"

definition or_bool :: "bool option \<Rightarrow> bool option \<Rightarrow> bool option" where
  "or_bool x y = (if x = Some True then x else y)"

text \<open>\<^verbatim>\<open>bool(x)\<close> of an optional truth value.\<close>

definition to_bool :: "bool option \<Rightarrow> bool" where
  "to_bool x = (x = Some True)"

definition load_query_engine ::
  "Retriever \<Rightarrow> int option \<Rightarrow> string option \<Rightarrow> string list option \<Rightarrow> string list option
     \<Rightarrow> bool option \<Rightarrow> WandbRetrieverQueryEngine \<times> Retriever" where
  "load_query_engine self top_k language incl excl avoid =
     (let top_k' = or_int top_k (cfg_top_k (config self));
          language' = or_str language (cfg_language (config self));
          self' = (if avoid \<noteq> None then self\<lparr>is_avoid_query := avoid\<rparr> else self)
      in (\<lparr>qe_retriever = retriever self',
           node_postprocessors =
             [Metadata \<lparr>mp_min_result_size = top_k', include_tags = incl, exclude_tags = excl\<rparr>,
              LanguageFilter \<lparr>languages = [language', ''python''], lf_min_result_size = top_k'\<rparr>,
              if language' = ''en'' then CohereRerank top_k' ''rerank-english-v2.0''
              else CohereRerank top_k' ''rerank-multilingual-v2.0'']\<rparr>,
          self'))"

definition to_output :: "NodeWithScore \<Rightarrow> retrieval" where
  "to_output n =
     \<lparr>out_text = node_text (node n), out_metadata = metadata (node n), out_score = get_score n\<rparr>"

text \<open>
  \<^verbatim>\<open>retrieve\<close> returns the outputs or the exception, the session as the call leaves it,
  and the requests sent to the web search endpoint. An exception leaves before
  \<^verbatim>\<open>self.is_avoid_query = None\<close>.
\<close>

definition Retriever_retrieve ::
  "'h collaborators \<Rightarrow> Retriever \<Rightarrow> string \<Rightarrow> retrieve_args
     \<Rightarrow> (error + retrieval list) \<times> Retriever \<times> web_request list" where
  "Retriever_retrieve w self query_str args =
     (let top_k = or_int (arg_top_k args) (cfg_top_k (config self));
          language = or_str (arg_language args) (cfg_language (config self));
          loaded = load_query_engine self (Some top_k) (Some language)
                     (arg_include_tags args) (arg_exclude_tags args) None;
          retrieval_engine = fst loaded;
          self' = snd loaded;
          avoid_query = or_bool (is_avoid_query self') (arg_is_avoid_query args);
          r = WandbRetrieverQueryEngine_retrieve w retrieval_engine query_str (to_bool avoid_query)
      in (case fst r of
            Inl e \<Rightarrow> (Inl e, self', snd r)
          | Inr results \<Rightarrow>
              (Inr (map to_output results), self'\<lparr>is_avoid_query := None\<rparr>, snd r)))"

text \<open>\<^verbatim>\<open>__call__\<close>: the second log line reads \<^verbatim>\<open>retrievals[0]\<close>.\<close>

definition Retriever_call ::
  "'h collaborators \<Rightarrow> Retriever \<Rightarrow> string \<Rightarrow> retrieve_args
     \<Rightarrow> (error + retrieval list) \<times> Retriever \<times> web_request list" where
  "Retriever_call w self query_str args =
     (let r = Retriever_retrieve w self query_str args
      in (case fst r of
            Inl e \<Rightarrow> r
          | Inr retrievals \<Rightarrow>
              (case retrievals of
                 [] \<Rightarrow> (Inl IndexError, snd r)
               | first # _ \<Rightarrow> r)))"

section \<open>The specification's notions\<close>

text \<open>
  Deduplication by identity, first occurrence wins, as the specification words it: a
  candidate that is admitted suppresses every later candidate with its id.
\<close>

fun first_occurrences :: "NodeWithScore list \<Rightarrow> NodeWithScore list" where
  "first_occurrences [] = []"
| "first_occurrences (n # ns) =
     n # first_occurrences (filter (\<lambda>m. node_id (node m) \<noteq> node_id (node n)) ns)"

text \<open>The first candidate of a list that has the id of \<open>n\<close>.\<close>

definition first_with_id :: "NodeWithScore list \<Rightarrow> NodeWithScore \<Rightarrow> NodeWithScore option" where
  "first_with_id xs n = find (\<lambda>m. node_id (node m) = node_id (node n)) xs"

text \<open>
  The tags of a candidate, when its metadata has a list of strings under \<^verbatim>\<open>tags\<close>, and
  the language entry of its metadata.
\<close>

fun str_of :: "pyval \<Rightarrow> string option" where
  "str_of (PStr s) = Some s"
| "str_of _ = None"

fun strs_of :: "pyval list \<Rightarrow> string list option" where
  "strs_of [] = Some []"
| "strs_of (v # vs) =
     (case str_of v of
        None \<Rightarrow> None
      | Some s \<Rightarrow> (case strs_of vs of None \<Rightarrow> None | Some ss \<Rightarrow> Some (s # ss)))"

definition tags_of :: "NodeWithScore \<Rightarrow> string list option" where
  "tags_of n =
     (case map_of (metadata (node n)) ''tags'' of
        Some (PList vs) \<Rightarrow> strs_of vs
      | _ \<Rightarrow> None)"

definition has_tags :: "NodeWithScore \<Rightarrow> bool" where
  "has_tags n = (tags_of n \<noteq> None)"

definition has_language :: "NodeWithScore \<Rightarrow> bool" where
  "has_language n = (map_of (metadata (node n)) ''language'' \<noteq> None)"

text \<open>
  The tag policy: the include set is empty or within the candidate's tags, and the exclude
  set is empty or not within them, tags compared without case and surrounding white space.
  An unset tag set counts as empty.
\<close>

definition tag_policy :: "string list option \<Rightarrow> string list option \<Rightarrow> NodeWithScore \<Rightarrow> bool" where
  "tag_policy incl excl n =
     ((the_list incl = []
         \<or> normalize ` set (the_list incl) \<subseteq> normalize ` set (the_list (tags_of n)))
      \<and> (the_list excl = []
         \<or> \<not> normalize ` set (the_list excl) \<subseteq> normalize ` set (the_list (tags_of n))))"

text \<open>The language policy: the candidate's source language is one of the acceptable ones.\<close>

definition language_matches :: "string list \<Rightarrow> NodeWithScore \<Rightarrow> bool" where
  "language_matches ls n =
     (case map_of (metadata (node n)) ''language'' of
        Some (PStr l) \<Rightarrow> l \<in> set ls
      | _ \<Rightarrow> False)"

text \<open>
  Stage A followed by Stage B, with the minimum result size, the tag sets and the
  language that \<open>load_query_engine\<close> gives the two postprocessors.
\<close>

definition stage_A_then_B ::
  "NodeWithScore \<Rightarrow> int \<Rightarrow> string list option \<Rightarrow> string list option \<Rightarrow> string
     \<Rightarrow> NodeWithScore list \<Rightarrow> error + NodeWithScore list" where
  "stage_A_then_B dummy_node top_k incl excl language nodes =
     and_then
       (MetadataPostprocessor_postprocess_nodes dummy_node
          \<lparr>mp_min_result_size = top_k, include_tags = incl, exclude_tags = excl\<rparr> nodes)
       (LanguageFilterPostprocessor_postprocess_nodes
          \<lparr>languages = [language, ''python''], lf_min_result_size = top_k\<rparr>)"

text \<open>The snippets of a hit of a decoded response, and those of all its hits.\<close>

definition snippets_of_hit :: "pyval \<Rightarrow> pyval list" where
  "snippets_of_hit hit =
     (case hit_snippets hit of
        Inl e \<Rightarrow> []
      | Inr snippet_list \<Rightarrow> (case py_iter snippet_list of Inl e \<Rightarrow> [] | Inr ss \<Rightarrow> ss))"

definition hits_of :: "pyval \<Rightarrow> pyval list" where
  "hits_of results =
     (case py_getitem results ''hits'' of
        Inl e \<Rightarrow> []
      | Inr v \<Rightarrow> (case py_iter v of Inl e \<Rightarrow> [] | Inr hs \<Rightarrow> hs))"

definition all_snippets :: "pyval \<Rightarrow> pyval list" where
  "all_snippets results = concat (map snippets_of_hit (hits_of results))"

section \<open>Sample data\<close>

definition sample_node :: "string \<Rightarrow> string \<Rightarrow> string \<Rightarrow> string list \<Rightarrow> real \<Rightarrow> NodeWithScore" where
  "sample_node ident txt lang tags s =
     \<lparr>node = \<lparr>node_id = ident, node_text = txt,
              metadata = [(''language'', PStr lang), (''tags'', PList (map PStr tags))]\<rparr>,
      score = Some s\<rparr>"

definition sample_dummy :: NodeWithScore where
  "sample_dummy = sample_node ''no-result'' ''No results found'' ''en'' [''no-result''] 0"

definition sample_hit :: "string list \<Rightarrow> pyval" where
  "sample_hit snippets =
     PDict [(''url'', PStr ''https://example.org''),
            (''title'', PStr ''A page''),
            (''description'', PStr ''About the page''),
            (''snippets'', PList (map PStr snippets))]"

text \<open>
  A response with 21 hits that differ in their address and in their one snippet, and a
  response with three hits that are equal.
\<close>

definition numbered_hit :: "nat \<Rightarrow> pyval" where
  "numbered_hit i =
     PDict [(''url'', PStr (''https://example.org/'' @ replicate i CHR ''a'')),
            (''title'', PStr ''A page''),
            (''description'', PStr ''About the page''),
            (''snippets'', PList [PStr (char_of (65 + i) # '' is the snippet'')])]"

definition many_payload :: pyval where
  "many_payload = PDict [(''hits'', PList (map numbered_hit [0..<21]))]"

definition many_hits :: http_response where
  "many_hits = Response 200 (Some many_payload)"

definition three_same_payload :: pyval where
  "three_same_payload = PDict [(''hits'', PList (replicate 3 (sample_hit [''web text''])))]"

definition three_same_hits :: http_response where
  "three_same_hits = Response 200 (Some three_same_payload)"

text \<open>
  Collaborators for the examples: fixed index results, a given web response, a text
  validation that accepts strings only, a hash that is the text and the metadata
  themselves, and a re-ranker that keeps the first \<open>top_n\<close> nodes.
\<close>

definition sample_collaborators ::
  "NodeWithScore list \<Rightarrow> NodeWithScore list \<Rightarrow> http_response
     \<Rightarrow> (string \<times> (string \<times> pyval) list) collaborators" where
  "sample_collaborators lexical vector response =
     \<lparr>bm25_retrieve = (\<lambda>q k. lexical),
      vector_retrieve = (\<lambda>q k. vector),
      you_search = (\<lambda>r. response),
      validate_text = str_of,
      new_node_id = (\<lambda>i. replicate (Suc i) CHR ''w''),
      node_hash = (\<lambda>n. (node_text n, metadata n)),
      cohere_rerank = (\<lambda>model top_n q nodes. Inr (take (nat top_n) nodes)),
      no_result_dummy_node = sample_dummy\<rparr>"

definition sample_you :: YouRetriever where
  "sample_you = \<lparr>api_key = ''key'', you_similarity_top_k = 20\<rparr>"

definition sample_session :: "bool option \<Rightarrow> Retriever" where
  "sample_session flag =
     \<lparr>config = \<lparr>cfg_top_k = 10, cfg_similarity_top_k = 10, cfg_language = ''en''\<rparr>,
      retriever = \<lparr>hr_similarity_top_k = 10, you_retriever = sample_you\<rparr>,
      is_avoid_query = flag\<rparr>"

definition sample_lexical :: "NodeWithScore list" where
  "sample_lexical =
     [sample_node ''d1'' ''lexical text'' ''en'' [''Docs''] 3,
      sample_node ''d2'' ''two'' ''en'' [''docs'', ''guide''] 2]"

definition sample_vector :: "NodeWithScore list" where
  "sample_vector =
     [sample_node ''d1'' ''vector text'' ''en'' ['' docs ''] 7,
      sample_node ''d3'' ''three'' ''fr'' [''forum''] 1]"

definition one_hit :: http_response where
  "one_hit = Response 200 (Some (PDict [(''hits'', PList [sample_hit [''web text'']])]))"

definition tagged_abc :: NodeWithScore where
  "tagged_abc = sample_node ''n1'' ''first'' ''en'' [''a'', ''b'', ''c''] 1"

definition tagged_ad :: NodeWithScore where
  "tagged_ad = sample_node ''n2'' ''second'' ''en'' [''a'', ''d''] 2"

definition hit_without_title :: http_response where
  "hit_without_title =
     Response 200 (Some (PDict [(''hits'',
       PList [PDict [(''url'', PStr ''u''), (''description'', PStr ''d''),
                     (''snippets'', PList [PStr ''s''])]])]))"

section \<open>Fusion of the three sources\<close>

lemma combine_loop_eq:
  "combine_loop xs acc seen = acc @ first_occurrences (filter (\<lambda>n. node_id (node n) \<notin> seen) xs)"
proof (induction xs arbitrary: acc seen)
  case Nil
  then show ?case by simp
next
  case (Cons n ns)
  have "filter (\<lambda>m. node_id (node m) \<noteq> node_id (node n)) (filter (\<lambda>m. node_id (node m) \<notin> seen) ns)
      = filter (\<lambda>m. node_id (node m) \<notin> insert (node_id (node n)) seen) ns"
    by (induction ns) auto
  with Cons show ?case by simp
qed

lemma first_occurrences_ids: "set (map (\<lambda>n. node_id (node n)) (first_occurrences xs)) = set (map (\<lambda>n. node_id (node n)) xs)"
  by (induction xs rule: first_occurrences.induct) auto

lemma first_occurrences_set: "set (first_occurrences xs) \<subseteq> set xs"
  by (induction xs rule: first_occurrences.induct) auto

lemma first_occurrences_distinct: "distinct (map (\<lambda>n. node_id (node n)) (first_occurrences xs))"
  by (induction xs rule: first_occurrences.induct) (auto dest: subsetD [OF first_occurrences_set])

lemma first_occurrences_first:
  "n \<in> set (first_occurrences xs) \<Longrightarrow> first_with_id xs n = Some n"
proof (induction xs rule: first_occurrences.induct)
  case 1
  then show ?case by simp
next
  case (2 x xs)
  show ?case
  proof (cases "n = x")
    case True
    then show ?thesis by (simp add: first_with_id_def)
  next
    case False
    with 2 have m: "n \<in> set (first_occurrences (filter (\<lambda>m. node_id (node m) \<noteq> node_id (node x)) xs))" by simp
    then have "n \<in> set (filter (\<lambda>m. node_id (node m) \<noteq> node_id (node x)) xs)"
      using first_occurrences_set by blast
    then have ne: "node_id (node n) \<noteq> node_id (node x)" by simp
    have "find (\<lambda>m. node_id (node m) = node_id (node n)) (filter (\<lambda>m. node_id (node m) \<noteq> node_id (node x)) xs)
        = find (\<lambda>m. node_id (node m) = node_id (node n)) xs"
      using ne by (induction xs) auto
    with 2(1) [OF m] ne show ?thesis by (auto simp add: first_with_id_def)
  qed
qed

lemma first_with_id_append:
  "first_with_id (xs @ ys) n = (case first_with_id xs n of None \<Rightarrow> first_with_id ys n | Some m \<Rightarrow> Some m)"
  by (induction xs) (auto simp add: first_with_id_def)

lemma HybridRetriever_retrieve_eq:
  "fst (HybridRetriever_retrieve w self q avoid) =
     first_occurrences (bm25_retrieve w q (hr_similarity_top_k self)
        @ vector_retrieve w q (hr_similarity_top_k self)
        @ (if avoid then [] else fst (BaseRetriever_retrieve w (you_retriever self) q)))"
  by (simp add: HybridRetriever_retrieve_def Let_def combine_loop_eq)

text \<open>
  Claim C1. For every query, and whether or not the web source is asked, the fused list of
  \<^verbatim>\<open>HybridRetriever._retrieve\<close> is the concatenation of the lexical, the vector and
  the web results, in that order, deduplicated by node id with the first occurrence
  winning; the web results are what the \<^verbatim>\<open>retrieve\<close> of the web retriever returns, for
  any node hash: ids are distinct, they are the ids of the concatenation, every fused candidate
  is the first candidate of the concatenation with its id (so it comes from the lexical
  list when that has the id, else from the vector list when that has it, else from the web
  list), and the order is that of the first occurrences, not one by score.
\<close>

theorem fused_list_first_occurrence:
  assumes lex: "lexical = bm25_retrieve w q (hr_similarity_top_k self)"
    and vec: "vector = vector_retrieve w q (hr_similarity_top_k self)"
    and web: "web = (if avoid then [] else fst (BaseRetriever_retrieve w (you_retriever self) q))"
    and fused: "fused = fst (HybridRetriever_retrieve w self q avoid)"
  shows "fused = first_occurrences (lexical @ vector @ web)
    \<and> distinct (map (\<lambda>n. node_id (node n)) fused)
    \<and> set (map (\<lambda>n. node_id (node n)) fused) = set (map (\<lambda>n. node_id (node n)) (lexical @ vector @ web))
    \<and> (\<forall>n \<in> set fused. first_with_id (lexical @ vector @ web) n = Some n)
    \<and> (\<forall>n \<in> set fused.
          (case first_with_id lexical n of
             Some m \<Rightarrow> n = m
           | None \<Rightarrow> (case first_with_id vector n of
                        Some m \<Rightarrow> n = m
                      | None \<Rightarrow> first_with_id web n = Some n)))"
proof -
  have eq: "fused = first_occurrences (lexical @ vector @ web)"
    unfolding fused lex vec web by (rule HybridRetriever_retrieve_eq)
  have d: "distinct (map (\<lambda>n. node_id (node n)) fused)"
    unfolding eq by (rule first_occurrences_distinct)
  have s: "set (map (\<lambda>n. node_id (node n)) fused) = set (map (\<lambda>n. node_id (node n)) (lexical @ vector @ web))"
    unfolding eq by (rule first_occurrences_ids)
  have f: "first_with_id (lexical @ vector @ web) n = Some n" if "n \<in> set fused" for n
    using that unfolding eq by (rule first_occurrences_first)
  have p: "(case first_with_id lexical n of
             Some m \<Rightarrow> n = m
           | None \<Rightarrow> (case first_with_id vector n of
                        Some m \<Rightarrow> n = m
                      | None \<Rightarrow> first_with_id web n = Some n))" if "n \<in> set fused" for n
    using f [OF that] by (auto simp add: first_with_id_append split: option.splits)
  from eq d s f p show ?thesis by blast
qed

theorem fused_list_first_occurrence_witness:
  "fst (HybridRetriever_retrieve (sample_collaborators sample_lexical sample_vector three_same_hits)
          (retriever (sample_session None)) ''q'' False)
     = first_occurrences (sample_lexical @ sample_vector
         @ fst (BaseRetriever_retrieve
                  (sample_collaborators sample_lexical sample_vector three_same_hits)
                  sample_you ''q''))
   \<and> map (\<lambda>n. (node_id (node n), node_text (node n)))
       (fst (HybridRetriever_retrieve
          (sample_collaborators sample_lexical sample_vector three_same_hits)
          (retriever (sample_session None)) ''q'' False))
     = [(''d1'', ''lexical text''), (''d2'', ''two''), (''d3'', ''three''), (''w'', ''web text'')]
   \<and> map (\<lambda>n. node_id (node n))
       (fst (YouRetriever_retrieve
          (sample_collaborators sample_lexical sample_vector three_same_hits) sample_you ''q''))
     = [''w'', ''ww'', ''www'']"
proof -
  have a: "map (\<lambda>n. (node_id (node n), node_text (node n)))
       (fst (HybridRetriever_retrieve
          (sample_collaborators sample_lexical sample_vector three_same_hits)
          (retriever (sample_session None)) ''q'' False))
     = [(''d1'', ''lexical text''), (''d2'', ''two''), (''d3'', ''three''), (''w'', ''web text'')]"
    by code_simp
  have b: "map (\<lambda>n. node_id (node n))
       (fst (YouRetriever_retrieve
          (sample_collaborators sample_lexical sample_vector three_same_hits) sample_you ''q''))
     = [''w'', ''ww'', ''www'']"
    by code_simp
  show ?thesis
    using a b fused_list_first_occurrence [OF refl refl refl refl,
      where w = "sample_collaborators sample_lexical sample_vector three_same_hits"
        and q = "''q''" and self = "retriever (sample_session None)" and avoid = False]
    by (simp add: sample_collaborators_def sample_session_def)
qed

section \<open>The web retriever\<close>

lemma comprehension_list_all2:
  "comprehension f xs = Inr ys \<Longrightarrow> list_all2 (\<lambda>x y. f x = Inr y) xs ys"
proof (induction xs arbitrary: ys)
  case Nil
  then show ?case by auto
next
  case (Cons x xs)
  then show ?case by (auto split: sum.splits)
qed

lemma comprehension_length:
  "comprehension f xs = Inr ys \<Longrightarrow> length ys = length xs"
  using list_all2_lengthD [OF comprehension_list_all2] by fastforce

lemma search_hits_loop_length:
  "search_hits_loop zs acc = Inr r \<Longrightarrow>
   list_all2 (\<lambda>h z. hit_snippets h = Inr (fst z)) hs zs \<Longrightarrow>
   length r = length acc + length (concat (map snippets_of_hit hs))"
proof (induction zs acc arbitrary: hs rule: search_hits_loop.induct)
  case (1 search_hits)
  then show ?case by simp
next
  case (2 snippet_list md rest search_hits)
  from 2(3) obtain h hs' where hs: "hs = h # hs'" and h: "hit_snippets h = Inr snippet_list"
    and rest: "list_all2 (\<lambda>h z. hit_snippets h = Inr (fst z)) hs' rest"
    by (cases hs) auto
  from 2(2) obtain snippets where it: "py_iter snippet_list = Inr snippets"
    and loop: "search_hits_loop rest (search_hits @ map (\<lambda>snippet. (snippet, md)) snippets) = Inr r"
    by (auto split: sum.splits)
  from 2(1) [OF it loop rest] show ?case
    by (simp add: hs snippets_of_hit_def h it)
qed

lemma nodes_of_results_length:
  assumes "nodes_of_results w results = Inr nodes"
  shows "length nodes = length (all_snippets results)"
proof -
  from assms obtain hits_value hits snippets snippet_metadata search_hits where
    g: "py_getitem results ''hits'' = Inr hits_value"
    and i: "py_iter hits_value = Inr hits"
    and s: "comprehension hit_snippets hits = Inr snippets"
    and m: "comprehension hit_metadata hits = Inr snippet_metadata"
    and l: "search_hits_loop (zip snippets snippet_metadata) [] = Inr search_hits"
    and n: "comprehension (make_node w) (enumerate 0 search_hits) = Inr nodes"
    by (auto simp add: nodes_of_results_def and_then_def split: sum.splits)
  have ls: "length snippets = length hits" by (rule comprehension_length [OF s])
  have lm: "length snippet_metadata = length hits" by (rule comprehension_length [OF m])
  from s have "list_all2 (\<lambda>h y. hit_snippets h = Inr y) hits snippets"
    by (rule comprehension_list_all2)
  then have "list_all2 (\<lambda>h z. hit_snippets h = Inr (fst z)) hits (zip snippets snippet_metadata)"
    using ls lm by (auto simp add: list_all2_conv_all_nth)
  from search_hits_loop_length [OF l this]
  have "length search_hits = length (concat (map snippets_of_hit hits))" by simp
  moreover have "length nodes = length search_hits"
    using comprehension_length [OF n] by simp
  moreover have "hits_of results = hits" by (simp add: hits_of_def g i)
  ultimately show ?thesis by (simp add: all_snippets_def)
qed

lemma YouRetriever_init_cap:
  "YouRetriever_init key environ_key limit = Inr self \<Longrightarrow> you_similarity_top_k self = min limit 20"
  by (auto simp add: YouRetriever_init_def and_then_def split: if_splits option.splits)

lemma unique_hash_loop_length:
  "length (unique_hash_loop h ns seen) = card ((\<lambda>n. h (node n)) ` set ns - seen)"
proof (induction ns arbitrary: seen)
  case Nil
  then show ?case by simp
next
  case (Cons n ns)
  show ?case
  proof (cases "h (node n) \<in> seen")
    case True
    then have "(\<lambda>n. h (node n)) ` set (n # ns) - seen = (\<lambda>n. h (node n)) ` set ns - seen"
      by auto
    with True Cons show ?thesis by simp
  next
    case False
    then have "(\<lambda>n. h (node n)) ` set (n # ns) - seen
        = insert (h (node n)) ((\<lambda>n. h (node n)) ` set ns - insert (h (node n)) seen)"
      by auto
    with False Cons show ?thesis by simp
  qed
qed

lemma unique_hash_loop_distinct:
  "distinct (map (\<lambda>n. h (node n)) ns) \<Longrightarrow> \<forall>n \<in> set ns. h (node n) \<notin> seen \<Longrightarrow>
   unique_hash_loop h ns seen = ns"
proof (induction ns arbitrary: seen)
  case Nil
  then show ?case by simp
next
  case (Cons a ns)
  from Cons.prems have d: "distinct (map (\<lambda>n. h (node n)) ns)"
    and f: "\<forall>n \<in> set ns. h (node n) \<notin> insert (h (node a)) seen"
    and a: "h (node a) \<notin> seen"
    by (auto simp add: image_iff)
  from Cons.IH [OF d f] a show ?case by simp
qed

lemma BaseRetriever_retrieve_fst:
  "fst (BaseRetriever_retrieve w self q)
     = unique_hash_loop (node_hash w) (fst (YouRetriever_retrieve w self q)) {}"
  by (simp add: BaseRetriever_retrieve_def Let_def)

lemma BaseRetriever_retrieve_snd:
  "snd (BaseRetriever_retrieve w self q) = [you_request self q]"
  by (simp add: BaseRetriever_retrieve_def Let_def YouRetriever_retrieve_def)

text \<open>
  Claim C2, as amended. The claim that the web retriever yields at most 20 candidates
  whatever the response holds is false: the code caps what it asks for, not what it gets.
  For every query and every requested limit, the request sent to the web search endpoint
  asks for \<open>min limit 20\<close> results, so for at most 20, and exactly one request is sent;
  the response is not truncated: when it has status 200 and its payload is processed
  without an exception, \<^verbatim>\<open>_retrieve\<close> builds one candidate for every snippet of every
  hit, and the inherited \<^verbatim>\<open>retrieve\<close> returns as many of them as they have hashes, all
  of them when their hashes differ.
\<close>

theorem web_retriever_caps_request_only:
  assumes "YouRetriever_init key environ_key limit = Inr self"
  shows "req_num_web_results (you_request self q) = min limit 20
    \<and> req_num_web_results (you_request self q) \<le> 20
    \<and> snd (BaseRetriever_retrieve w self q) = [you_request self q]
    \<and> (\<forall>results. you_search w (you_request self q) = Response 200 (Some results) \<longrightarrow>
         (case nodes_of_results w results of
            Inl e \<Rightarrow> fst (BaseRetriever_retrieve w self q) = []
          | Inr nodes \<Rightarrow>
              fst (YouRetriever_retrieve w self q) = nodes
              \<and> length nodes = length (all_snippets results)
              \<and> length (fst (BaseRetriever_retrieve w self q))
                  = card ((\<lambda>n. node_hash w (node n)) ` set nodes)
              \<and> (distinct (map (\<lambda>n. node_hash w (node n)) nodes)
                   \<longrightarrow> fst (BaseRetriever_retrieve w self q) = nodes)))"
proof -
  have a: "req_num_web_results (you_request self q) = min limit 20"
    using YouRetriever_init_cap [OF assms] by (simp add: you_request_def)
  have b: "(case nodes_of_results w results of
            Inl e \<Rightarrow> fst (BaseRetriever_retrieve w self q) = []
          | Inr nodes \<Rightarrow>
              fst (YouRetriever_retrieve w self q) = nodes
              \<and> length nodes = length (all_snippets results)
              \<and> length (fst (BaseRetriever_retrieve w self q))
                  = card ((\<lambda>n. node_hash w (node n)) ` set nodes)
              \<and> (distinct (map (\<lambda>n. node_hash w (node n)) nodes)
                   \<longrightarrow> fst (BaseRetriever_retrieve w self q) = nodes))"
    if r: "you_search w (you_request self q) = Response 200 (Some results)" for results
  proof (cases "nodes_of_results w results")
    case (Inl e)
    then have "fst (YouRetriever_retrieve w self q) = []"
      by (simp add: YouRetriever_retrieve_def YouRetriever_try_def r)
    with Inl show ?thesis by (simp add: BaseRetriever_retrieve_fst)
  next
    case (Inr nodes)
    then have y: "fst (YouRetriever_retrieve w self q) = nodes"
      by (simp add: YouRetriever_retrieve_def YouRetriever_try_def r)
    have l: "length nodes = length (all_snippets results)"
      by (rule nodes_of_results_length [OF Inr])
    have c: "length (fst (BaseRetriever_retrieve w self q))
        = card ((\<lambda>n. node_hash w (node n)) ` set nodes)"
      by (simp add: BaseRetriever_retrieve_fst y unique_hash_loop_length)
    have d: "fst (BaseRetriever_retrieve w self q) = nodes"
      if "distinct (map (\<lambda>n. node_hash w (node n)) nodes)"
      using that by (simp add: BaseRetriever_retrieve_fst y unique_hash_loop_distinct)
    from Inr y l c d show ?thesis by simp
  qed
  from a b show ?thesis by (simp add: BaseRetriever_retrieve_snd)
qed

theorem web_retriever_caps_request_only_witness:
  "YouRetriever_init (Some ''key'') None 50 = Inr sample_you
   \<and> req_num_web_results (you_request sample_you ''q'') = 20
   \<and> length (all_snippets many_payload) = 21
   \<and> length (fst (BaseRetriever_retrieve (sample_collaborators [] [] many_hits) sample_you ''q'')) = 21"
proof -
  let ?w = "sample_collaborators [] [] many_hits"
  have i: "YouRetriever_init (Some ''key'') None 50 = Inr sample_you" by code_simp
  have r: "you_search ?w (you_request sample_you ''q'') = Response 200 (Some many_payload)"
    by (simp add: sample_collaborators_def many_hits_def)
  have n: "length (all_snippets many_payload) = 21"
    by code_simp
  have k: "(case nodes_of_results ?w many_payload of
              Inl e \<Rightarrow> False
            | Inr nodes \<Rightarrow> distinct (map (\<lambda>n. node_hash ?w (node n)) nodes))"
    by code_simp
  then obtain nodes where ok: "nodes_of_results ?w many_payload = Inr nodes"
    and d: "distinct (map (\<lambda>n. node_hash ?w (node n)) nodes)"
    by (cases "nodes_of_results ?w many_payload") auto
  from web_retriever_caps_request_only [OF i, of "''q''" ?w]
  have q: "req_num_web_results (you_request sample_you ''q'') = min 50 20"
    and "\<forall>results. you_search ?w (you_request sample_you ''q'') = Response 200 (Some results) \<longrightarrow>
         (case nodes_of_results ?w results of
            Inl e \<Rightarrow> fst (BaseRetriever_retrieve ?w sample_you ''q'') = []
          | Inr nodes \<Rightarrow>
              fst (YouRetriever_retrieve ?w sample_you ''q'') = nodes
              \<and> length nodes = length (all_snippets results)
              \<and> length (fst (BaseRetriever_retrieve ?w sample_you ''q''))
                  = card ((\<lambda>n. node_hash ?w (node n)) ` set nodes)
              \<and> (distinct (map (\<lambda>n. node_hash ?w (node n)) nodes)
                   \<longrightarrow> fst (BaseRetriever_retrieve ?w sample_you ''q'') = nodes))"
    by blast+
  with r ok have "length nodes = length (all_snippets many_payload)"
    and "distinct (map (\<lambda>n. node_hash ?w (node n)) nodes)
           \<longrightarrow> fst (BaseRetriever_retrieve ?w sample_you ''q'') = nodes"
    by auto
  with d n have "length (fst (BaseRetriever_retrieve ?w sample_you ''q'')) = 21" by simp
  with i q n show ?thesis by simp
qed

text \<open>
  The claim C2 as stated fails: with a requested limit of 50, cut down to 20, a response of
  21 different hits with one snippet each gives 21 web candidates.
\<close>

theorem web_retriever_more_than_twenty:
  "YouRetriever_init (Some ''key'') None 50 = Inr sample_you
   \<and> \<not> length (fst (BaseRetriever_retrieve (sample_collaborators [] [] many_hits) sample_you ''q'')) \<le> 20"
  by code_simp

lemma YouRetriever_retrieve_failed:
  assumes "you_search w (you_request self q) = resp"
    and "resp = ConnectionFailed
       \<or> (\<exists>status body. resp = Response status body \<and> status \<noteq> 200)
       \<or> resp = Response 200 None
       \<or> (\<exists>results e. resp = Response 200 (Some results) \<and> nodes_of_results w results = Inl e)"
  shows "fst (YouRetriever_retrieve w self q) = []"
  using assms by (auto simp add: YouRetriever_retrieve_def YouRetriever_try_def)

text \<open>
  Claim C3. For every query, when the web search call fails, be it that the request
  raises, that the status is not 200, that the body does not decode, or that the payload
  is malformed so that processing it raises, the web retriever returns the empty list and
  no exception, from \<^verbatim>\<open>_retrieve\<close> and so from \<^verbatim>\<open>retrieve\<close>; the fused list of that call is then the deduplicated concatenation of the
  lexical and the vector results, the same list as when the web source is not asked.
\<close>

theorem web_failure_is_soft:
  assumes "you_search w (you_request (you_retriever self) q) = resp"
    and "resp = ConnectionFailed
       \<or> (\<exists>status body. resp = Response status body \<and> status \<noteq> 200)
       \<or> resp = Response 200 None
       \<or> (\<exists>results e. resp = Response 200 (Some results) \<and> nodes_of_results w results = Inl e)"
  shows "fst (YouRetriever_retrieve w (you_retriever self) q) = []
    \<and> fst (BaseRetriever_retrieve w (you_retriever self) q) = []
    \<and> fst (HybridRetriever_retrieve w self q False)
        = first_occurrences (bm25_retrieve w q (hr_similarity_top_k self)
            @ vector_retrieve w q (hr_similarity_top_k self))
    \<and> fst (HybridRetriever_retrieve w self q False) = fst (HybridRetriever_retrieve w self q True)"
proof -
  have e: "fst (YouRetriever_retrieve w (you_retriever self) q) = []"
    by (rule YouRetriever_retrieve_failed [OF assms])
  then have "fst (BaseRetriever_retrieve w (you_retriever self) q) = []"
    by (simp add: BaseRetriever_retrieve_fst)
  with e show ?thesis by (simp add: HybridRetriever_retrieve_eq)
qed

theorem web_failure_is_soft_witness:
  "fst (HybridRetriever_retrieve (sample_collaborators sample_lexical sample_vector ConnectionFailed)
          (retriever (sample_session None)) ''q'' False)
     = first_occurrences (sample_lexical @ sample_vector)
   \<and> fst (HybridRetriever_retrieve (sample_collaborators sample_lexical sample_vector (Response 503 None))
          (retriever (sample_session None)) ''q'' False)
     = first_occurrences (sample_lexical @ sample_vector)
   \<and> fst (HybridRetriever_retrieve (sample_collaborators sample_lexical sample_vector (Response 200 None))
          (retriever (sample_session None)) ''q'' False)
     = first_occurrences (sample_lexical @ sample_vector)
   \<and> nodes_of_results (sample_collaborators sample_lexical sample_vector hit_without_title)
        (PDict [(''hits'',
           PList [PDict [(''url'', PStr ''u''), (''description'', PStr ''d''),
                     (''snippets'', PList [PStr ''s''])]])]) = Inl KeyError
   \<and> fst (YouRetriever_retrieve (sample_collaborators sample_lexical sample_vector hit_without_title)
          sample_you ''q'') = []
   \<and> fst (HybridRetriever_retrieve (sample_collaborators sample_lexical sample_vector hit_without_title)
          (retriever (sample_session None)) ''q'' False)
     = first_occurrences (sample_lexical @ sample_vector)
   \<and> map (\<lambda>n. node_id (node n)) (first_occurrences (sample_lexical @ sample_vector))
     = [''d1'', ''d2'', ''d3'']"
proof -
  let ?self = "retriever (sample_session None)"
  have s: "you_retriever ?self = sample_you" "hr_similarity_top_k ?self = 10"
    by (simp_all add: sample_session_def)
  have c: "\<And>r. you_search (sample_collaborators sample_lexical sample_vector r) (you_request (you_retriever ?self) ''q'') = r"
    "\<And>r. bm25_retrieve (sample_collaborators sample_lexical sample_vector r) ''q'' 10 = sample_lexical"
    "\<And>r. vector_retrieve (sample_collaborators sample_lexical sample_vector r) ''q'' 10 = sample_vector"
    by (simp_all add: sample_collaborators_def)
  have k: "nodes_of_results (sample_collaborators sample_lexical sample_vector hit_without_title)
        (PDict [(''hits'',
           PList [PDict [(''url'', PStr ''u''), (''description'', PStr ''d''),
                     (''snippets'', PList [PStr ''s''])]])]) = Inl KeyError"
    by code_simp
  have i: "map (\<lambda>n. node_id (node n)) (first_occurrences (sample_lexical @ sample_vector))
     = [''d1'', ''d2'', ''d3'']"
    by code_simp
  have 1: "fst (HybridRetriever_retrieve (sample_collaborators sample_lexical sample_vector ConnectionFailed)
          ?self ''q'' False) = first_occurrences (sample_lexical @ sample_vector)"
    using web_failure_is_soft [OF c(1), of ConnectionFailed] by (simp add: s c)
  have 2: "fst (HybridRetriever_retrieve (sample_collaborators sample_lexical sample_vector (Response 503 None))
          ?self ''q'' False) = first_occurrences (sample_lexical @ sample_vector)"
    using web_failure_is_soft [OF c(1), of "Response 503 None"] by (simp add: s c)
  have 3: "fst (HybridRetriever_retrieve (sample_collaborators sample_lexical sample_vector (Response 200 None))
          ?self ''q'' False) = first_occurrences (sample_lexical @ sample_vector)"
    using web_failure_is_soft [OF c(1), of "Response 200 None"] by (simp add: s c)
  have 4: "fst (YouRetriever_retrieve (sample_collaborators sample_lexical sample_vector hit_without_title)
          sample_you ''q'') = []
     \<and> fst (HybridRetriever_retrieve (sample_collaborators sample_lexical sample_vector hit_without_title)
          ?self ''q'' False) = first_occurrences (sample_lexical @ sample_vector)"
    using web_failure_is_soft [OF c(1), of hit_without_title] k
    by (simp add: s c hit_without_title_def)
  from 1 2 3 4 k i show ?thesis by blast
qed

section \<open>The tag policy filter\<close>

lemma comprehension_normalize:
  "strs_of vs = Some ss \<Longrightarrow> comprehension normalize_value vs = Inr (map normalize ss)"
proof (induction vs arbitrary: ss)
  case Nil
  then show ?case by simp
next
  case (Cons v vs)
  then show ?case by (cases v) (auto split: option.splits)
qed

lemma normalized_tags_eq:
  assumes "tags_of n = Some ts"
  shows "normalized_tags n = Inr (map normalize ts)"
proof -
  from assms obtain vs where m: "map_of (metadata (node n)) ''tags'' = Some (PList vs)"
    and s: "strs_of vs = Some ts"
    by (auto simp add: tags_of_def split: option.splits pyval.splits)
  show ?thesis
    by (simp add: normalized_tags_def dict_getitem_def and_then_def m comprehension_normalize [OF s])
qed

lemma truthy_the_list: "truthy xs \<longleftrightarrow> the_list xs \<noteq> []"
  by (cases xs) (simp_all add: truthy_def the_list_def)

lemma tags_admit_eq:
  assumes "has_tags n"
  shows "tags_admit self n = Inr (tag_policy (include_tags self) (exclude_tags self) n)"
proof -
  from assms obtain ts where t: "tags_of n = Some ts"
    by (auto simp add: has_tags_def)
  show ?thesis
    by (simp add: tags_admit_def normalized_tags_eq [OF t] and_then_def tag_policy_def t
        truthy_the_list the_list_def)
qed

lemma metadata_loop_eq:
  "\<forall>n \<in> set ns. has_tags n \<Longrightarrow>
   metadata_loop self ns acc
     = Inr (acc @ filter (tag_policy (include_tags self) (exclude_tags self)) ns)"
  by (induction ns arbitrary: acc) (simp_all add: tags_admit_eq)

lemma tag_policy_unset:
  "\<not> truthy incl \<Longrightarrow> \<not> truthy excl \<Longrightarrow> tag_policy incl excl n"
  by (simp add: tag_policy_def truthy_the_list)

lemma MetadataPostprocessor_eq:
  assumes "truthy (include_tags self) \<or> truthy (exclude_tags self)"
    and "\<forall>n \<in> set nodes. has_tags n"
  shows "MetadataPostprocessor_postprocess_nodes dummy self nodes
    = Inr (filter (tag_policy (include_tags self) (exclude_tags self)) nodes
        @ replicate (nat (mp_min_result_size self
            - int (length (filter (tag_policy (include_tags self) (exclude_tags self)) nodes)))) dummy)"
  using assms
  by (auto simp add: MetadataPostprocessor_postprocess_nodes_def metadata_loop_eq and_then_def list_times_def)

lemma MetadataPostprocessor_passthrough:
  "\<not> truthy (include_tags self) \<Longrightarrow> \<not> truthy (exclude_tags self) \<Longrightarrow>
   MetadataPostprocessor_postprocess_nodes dummy self nodes = Inr nodes"
  by (simp add: MetadataPostprocessor_postprocess_nodes_def)

text \<open>
  Claim C4. For every list of candidates and every pair of tag sets, the tag policy filter
  keeps a candidate if and only if the include set is empty or within the candidate's tags
  and the exclude set is empty or not within them, tags being compared in lower case and
  without surrounding white space: the output is the candidates that satisfy the policy,
  in their order, followed by the padding; and when both tag sets are empty or unset the
  output is the input. The candidates carry a list of strings under \<^verbatim>\<open>tags\<close>, as the
  specification's data model has it, whenever a tag set is given.
\<close>

theorem tag_filter_retains_by_policy:
  assumes "truthy (include_tags self) \<or> truthy (exclude_tags self) \<Longrightarrow> \<forall>n \<in> set nodes. has_tags n"
  shows "MetadataPostprocessor_postprocess_nodes dummy self nodes
      = Inr (filter (tag_policy (include_tags self) (exclude_tags self)) nodes
          @ (if truthy (include_tags self) \<or> truthy (exclude_tags self)
             then replicate (nat (mp_min_result_size self
                - int (length (filter (tag_policy (include_tags self) (exclude_tags self)) nodes)))) dummy
             else []))
    \<and> (\<not> truthy (include_tags self) \<and> \<not> truthy (exclude_tags self)
        \<longrightarrow> MetadataPostprocessor_postprocess_nodes dummy self nodes = Inr nodes)"
proof (cases "truthy (include_tags self) \<or> truthy (exclude_tags self)")
  case True
  have "MetadataPostprocessor_postprocess_nodes dummy self nodes
    = Inr (filter (tag_policy (include_tags self) (exclude_tags self)) nodes
        @ replicate (nat (mp_min_result_size self
            - int (length (filter (tag_policy (include_tags self) (exclude_tags self)) nodes)))) dummy)"
    by (rule MetadataPostprocessor_eq [OF True assms [OF True]])
  with True show ?thesis by auto
next
  case False
  then have "filter (tag_policy (include_tags self) (exclude_tags self)) nodes = nodes"
    by (simp add: tag_policy_unset)
  with False show ?thesis by (simp add: MetadataPostprocessor_passthrough)
qed

theorem tag_filter_retains_by_policy_witness:
  "has_tags tagged_abc \<and> has_tags tagged_ad
   \<and> MetadataPostprocessor_postprocess_nodes sample_dummy
        \<lparr>mp_min_result_size = 1, include_tags = None, exclude_tags = Some ['' A'', ''B '']\<rparr>
        [tagged_abc, tagged_ad] = Inr [tagged_ad]
   \<and> MetadataPostprocessor_postprocess_nodes sample_dummy
        \<lparr>mp_min_result_size = 1, include_tags = None, exclude_tags = Some [''a'', ''d'']\<rparr>
        [tagged_abc] = Inr [tagged_abc]"
proof -
  have h: "has_tags tagged_abc \<and> has_tags tagged_ad" by code_simp
  have p: "\<not> tag_policy None (Some ['' A'', ''B '']) tagged_abc
     \<and> tag_policy None (Some ['' A'', ''B '']) tagged_ad
     \<and> tag_policy None (Some [''a'', ''d'']) tagged_abc"
    by code_simp
  have t: "truthy (Some ['' A'', ''B '']) \<and> truthy (Some [''a'', ''d''])"
    by (simp add: truthy_def)
  from h p t
    tag_filter_retains_by_policy [of
      "\<lparr>mp_min_result_size = 1, include_tags = None, exclude_tags = Some ['' A'', ''B '']\<rparr>"
      "[tagged_abc, tagged_ad]" sample_dummy]
    tag_filter_retains_by_policy [of
      "\<lparr>mp_min_result_size = 1, include_tags = None, exclude_tags = Some [''a'', ''d'']\<rparr>"
      "[tagged_abc]" sample_dummy]
  show ?thesis by simp
qed

text \<open>
  Claim C5. When at least one tag set is non-empty and fewer than \<open>N\<close> candidates survive
  the tag policy filter, the output has exactly \<open>N\<close> entries: the survivors first, in
  their original order, then sentinel no-result candidates up to \<open>N\<close>.
\<close>

theorem tag_filter_pads_to_minimum:
  assumes "truthy (include_tags self) \<or> truthy (exclude_tags self)"
    and "\<forall>n \<in> set nodes. has_tags n"
    and "survivors = filter (tag_policy (include_tags self) (exclude_tags self)) nodes"
    and "int (length survivors) < mp_min_result_size self"
  shows "\<exists>out. MetadataPostprocessor_postprocess_nodes dummy self nodes = Inr out
    \<and> int (length out) = mp_min_result_size self
    \<and> out = survivors @ replicate (nat (mp_min_result_size self - int (length survivors))) dummy
    \<and> take (length survivors) out = survivors
    \<and> set (drop (length survivors) out) = {dummy}"
  using assms(3,4) MetadataPostprocessor_eq [OF assms(1,2), of dummy] by auto

theorem tag_filter_pads_to_minimum_witness:
  "MetadataPostprocessor_postprocess_nodes sample_dummy
      \<lparr>mp_min_result_size = 10, include_tags = Some [''docs''], exclude_tags = None\<rparr>
      (sample_lexical @ sample_vector)
    = Inr ((sample_lexical @ [hd sample_vector]) @ replicate 7 sample_dummy)"
proof -
  let ?self = "\<lparr>mp_min_result_size = 10, include_tags = Some [''docs''], exclude_tags = None\<rparr>"
  have t: "truthy (include_tags ?self) \<or> truthy (exclude_tags ?self)"
    by (simp add: truthy_def)
  have h: "\<forall>n \<in> set (sample_lexical @ sample_vector). has_tags n" by code_simp
  have s: "sample_lexical @ [hd sample_vector]
      = filter (tag_policy (include_tags ?self) (exclude_tags ?self)) (sample_lexical @ sample_vector)"
    by code_simp
  have l: "int (length (sample_lexical @ [hd sample_vector])) < mp_min_result_size ?self"
    by code_simp
  have k: "nat (mp_min_result_size ?self - int (length (sample_lexical @ [hd sample_vector]))) = 7"
    by code_simp
  from tag_filter_pads_to_minimum [OF t h s l, of sample_dummy] show ?thesis
    unfolding k by blast
qed

section \<open>The language policy filter\<close>

lemma language_in_eq:
  assumes "has_language n"
  shows "language_in ls n = Inr (language_matches ls n)"
proof -
  from assms obtain v where m: "map_of (metadata (node n)) ''language'' = Some v"
    by (auto simp add: has_language_def)
  show ?thesis
    by (cases v) (auto simp add: language_in_def language_matches_def dict_getitem_def and_then_def m)
qed

lemma language_loop_eq:
  "\<forall>n \<in> set ns. has_language n \<Longrightarrow>
   language_loop ls ns acc = Inr (acc @ filter (language_matches ls) ns)"
  by (induction ns arbitrary: acc) (simp_all add: language_in_eq)

lemma LanguageFilterPostprocessor_eq:
  assumes "\<forall>n \<in> set nodes. has_language n"
  shows "LanguageFilterPostprocessor_postprocess_nodes self nodes
    = Inr (filter (language_matches (languages self)) nodes
        @ (if int (length (filter (language_matches (languages self)) nodes)) < lf_min_result_size self
           then take (nat (lf_min_result_size self
              - int (length (filter (language_matches (languages self)) nodes)))) nodes
           else []))"
  using assms
  by (simp add: LanguageFilterPostprocessor_postprocess_nodes_def language_loop_eq and_then_def slice_to_def)

text \<open>
  Claim C6. For every list of candidates that carry a \<^verbatim>\<open>language\<close> entry, the language
  policy filter returns the candidates whose language is acceptable, in their original
  order; when these are fewer than \<open>N\<close> it appends the candidates at the front of the
  original list until the length is \<open>N\<close> or the original list is used up. A matching
  candidate that is among those leading entries then occurs twice; so it is when the first
  candidate of the list matches.
\<close>

theorem language_filter_matches_then_front:
  assumes "\<forall>n \<in> set nodes. has_language n"
    and "matches = filter (language_matches (languages self)) nodes"
  shows "\<exists>out. LanguageFilterPostprocessor_postprocess_nodes self nodes = Inr out
    \<and> out = matches
        @ (if int (length matches) < lf_min_result_size self
           then take (nat (lf_min_result_size self - int (length matches))) nodes else [])
    \<and> int (length out)
        = (if int (length matches) < lf_min_result_size self
           then min (lf_min_result_size self) (int (length matches) + int (length nodes))
           else int (length matches))
    \<and> (int (length matches) < lf_min_result_size self \<and> nodes \<noteq> []
         \<and> language_matches (languages self) (hd nodes) \<longrightarrow> \<not> distinct out)"
proof -
  let ?N = "lf_min_result_size self"
  let ?out = "matches
        @ (if int (length matches) < ?N then take (nat (?N - int (length matches))) nodes else [])"
  have e: "LanguageFilterPostprocessor_postprocess_nodes self nodes = Inr ?out"
    unfolding assms(2) by (rule LanguageFilterPostprocessor_eq [OF assms(1)])
  have l: "int (length ?out)
        = (if int (length matches) < ?N
           then min ?N (int (length matches) + int (length nodes))
           else int (length matches))"
    by auto
  have d: "\<not> distinct ?out"
    if "int (length matches) < ?N" "nodes \<noteq> []" "language_matches (languages self) (hd nodes)"
  proof -
    from that(2) obtain x xs where n: "nodes = x # xs" by (cases nodes) auto
    with that(3) have "x \<in> set matches" by (simp add: assms(2))
    moreover from that(1) n have "x \<in> set (take (nat (?N - int (length matches))) nodes)"
      by (cases "nat (?N - int (length matches))") auto
    ultimately show ?thesis using that(1) by auto
  qed
  from e l d show ?thesis by blast
qed

theorem language_filter_matches_then_front_witness:
  "LanguageFilterPostprocessor_postprocess_nodes
        \<lparr>languages = [''fr'', ''python''], lf_min_result_size = 5\<rparr>
        (sample_lexical @ sample_vector)
      = Inr ([last sample_vector] @ sample_lexical @ sample_vector)
   \<and> map (\<lambda>n. node_id (node n)) ([last sample_vector] @ sample_lexical @ sample_vector)
      = [''d3'', ''d1'', ''d2'', ''d1'', ''d3'']"
proof -
  let ?self = "\<lparr>languages = [''fr'', ''python''], lf_min_result_size = 5\<rparr>"
  have h: "\<forall>n \<in> set (sample_lexical @ sample_vector). has_language n" by code_simp
  have m: "[last sample_vector]
      = filter (language_matches (languages ?self)) (sample_lexical @ sample_vector)"
    by code_simp
  have o: "[last sample_vector]
        @ (if int (length [last sample_vector]) < lf_min_result_size ?self
           then take (nat (lf_min_result_size ?self - int (length [last sample_vector])))
                  (sample_lexical @ sample_vector)
           else [])
      = [last sample_vector] @ sample_lexical @ sample_vector"
    by code_simp
  have i: "map (\<lambda>n. node_id (node n)) ([last sample_vector] @ sample_lexical @ sample_vector)
      = [''d3'', ''d1'', ''d2'', ''d1'', ''d3'']"
    by code_simp
  from language_filter_matches_then_front [OF h m] i show ?thesis
    unfolding o by blast
qed

section \<open>Stage A followed by Stage B\<close>

lemma load_query_engine_stages:
  "apply_node_postprocessors w q
     (node_postprocessors (fst (load_query_engine self top_k language incl excl avoid))) nodes
   = and_then
       (stage_A_then_B (no_result_dummy_node w) (or_int top_k (cfg_top_k (config self))) incl excl
          (or_str language (cfg_language (config self))) nodes)
       (cohere_rerank w
          (if or_str language (cfg_language (config self)) = ''en'' then ''rerank-english-v2.0''
           else ''rerank-multilingual-v2.0'')
          (or_int top_k (cfg_top_k (config self))) q)"
  by (auto simp add: load_query_engine_def Let_def stage_A_then_B_def and_then_def split: sum.splits)

text \<open>
  Claim C7, as amended. The claim that the list after Stage A and Stage B has exactly \<open>N\<close>
  entries is false. For candidates and a sentinel that carry the metadata the two stages
  read, both stages return, and with \<open>m\<close> the number of entries of Stage A's output whose
  language is acceptable: when at least one tag set is non-empty, Stage A's output has at
  least \<open>N\<close> entries and the final list has \<open>max N m\<close>, so at least \<open>N\<close>, and exactly
  \<open>N\<close> when \<open>m \<le> N\<close>; when both tag sets are empty or unset, Stage A pads nothing and
  the final list has at least \<open>min N k\<close> entries, \<open>k\<close> the number of fused candidates.
\<close>

theorem stages_A_B_length:
  assumes tags: "truthy incl \<or> truthy excl \<Longrightarrow> \<forall>n \<in> set nodes. has_tags n"
    and lang: "\<forall>n \<in> set nodes. has_language n"
    and dummy: "has_language dummy_node"
    and ls: "ls = [language, ''python'']"
  shows "\<exists>a out.
      MetadataPostprocessor_postprocess_nodes dummy_node
        \<lparr>mp_min_result_size = N, include_tags = incl, exclude_tags = excl\<rparr> nodes = Inr a
    \<and> stage_A_then_B dummy_node N incl excl language nodes = Inr out
    \<and> int (length out)
        = (if int (length (filter (language_matches ls) a)) < N
           then min N (int (length (filter (language_matches ls) a)) + int (length a))
           else int (length (filter (language_matches ls) a)))
    \<and> (truthy incl \<or> truthy excl \<longrightarrow>
         N \<le> int (length a)
         \<and> int (length out) = max N (int (length (filter (language_matches ls) a))))
    \<and> (\<not> truthy incl \<and> \<not> truthy excl \<longrightarrow>
         a = nodes \<and> min N (int (length nodes)) \<le> int (length out))"
proof -
  let ?mp = "\<lparr>mp_min_result_size = N, include_tags = incl, exclude_tags = excl\<rparr>"
  let ?lf = "\<lparr>languages = [language, ''python''], lf_min_result_size = N\<rparr>"
  let ?kept = "filter (tag_policy incl excl) nodes"
  define a where "a = (if truthy incl \<or> truthy excl
    then ?kept @ replicate (nat (N - int (length ?kept))) dummy_node else nodes)"
  have A: "MetadataPostprocessor_postprocess_nodes dummy_node ?mp nodes = Inr a"
  proof (cases "truthy incl \<or> truthy excl")
    case True
    have t: "truthy (include_tags ?mp) \<or> truthy (exclude_tags ?mp)" using True by simp
    have h: "\<forall>n \<in> set nodes. has_tags n" by (rule tags [OF True])
    from MetadataPostprocessor_eq [OF t h, of dummy_node] True show ?thesis
      by (simp add: a_def)
  next
    case False
    then show ?thesis by (simp add: a_def MetadataPostprocessor_passthrough)
  qed
  have la: "\<forall>n \<in> set a. has_language n"
    using lang dummy by (auto simp add: a_def)
  let ?m = "filter (language_matches ls) a"
  define out where "out = ?m @ (if int (length ?m) < N then take (nat (N - int (length ?m))) a else [])"
  have B: "LanguageFilterPostprocessor_postprocess_nodes ?lf a = Inr out"
    using LanguageFilterPostprocessor_eq [OF la, of ?lf] by (simp add: out_def ls)
  have AB: "stage_A_then_B dummy_node N incl excl language nodes = Inr out"
    by (simp add: stage_A_then_B_def A and_then_def B)
  have len: "int (length out)
        = (if int (length ?m) < N then min N (int (length ?m) + int (length a)) else int (length ?m))"
    by (auto simp add: out_def)
  have big: "N \<le> int (length a)" if "truthy incl \<or> truthy excl"
    using that by (auto simp add: a_def)
  have mx: "int (length out) = max N (int (length ?m))" if "truthy incl \<or> truthy excl"
    using big [OF that] len by auto
  have small: "a = nodes \<and> min N (int (length nodes)) \<le> int (length out)"
    if "\<not> truthy incl \<and> \<not> truthy excl"
  proof -
    from that have "a = nodes" by (simp add: a_def)
    with len show ?thesis by auto
  qed
  from A AB len big mx small show ?thesis by blast
qed

theorem stages_A_B_length_witness:
  "\<exists>out. stage_A_then_B sample_dummy 10 (Some [''docs'']) None ''fr'' (sample_lexical @ sample_vector)
       = Inr out
     \<and> int (length out) = 10"
proof -
  have t: "truthy (Some [''docs'']) \<or> truthy None"
    by (simp add: truthy_def)
  have h: "\<forall>n \<in> set (sample_lexical @ sample_vector). has_tags n" by code_simp
  have l: "\<forall>n \<in> set (sample_lexical @ sample_vector). has_language n" by code_simp
  have d: "has_language sample_dummy" by code_simp
  have v: "MetadataPostprocessor_postprocess_nodes sample_dummy
        \<lparr>mp_min_result_size = 10, include_tags = Some [''docs''], exclude_tags = None\<rparr>
        (sample_lexical @ sample_vector)
      = Inr (sample_lexical @ [hd sample_vector] @ replicate 7 sample_dummy)"
    by code_simp
  have m: "max 10 (int (length (filter (language_matches [''fr'', ''python''])
        (sample_lexical @ [hd sample_vector] @ replicate 7 sample_dummy)))) = 10"
    by code_simp
  from stages_A_B_length [OF h l d refl, where N = 10 and language = "''fr''"
      and incl = "Some [''docs'']" and excl = None]
  show ?thesis
  proof (elim exE conjE)
    fix a out
    assume A: "MetadataPostprocessor_postprocess_nodes sample_dummy
        \<lparr>mp_min_result_size = 10, include_tags = Some [''docs''], exclude_tags = None\<rparr>
        (sample_lexical @ sample_vector) = Inr a"
      and AB: "stage_A_then_B sample_dummy 10 (Some [''docs'']) None ''fr''
        (sample_lexical @ sample_vector) = Inr out"
      and mx: "truthy (Some [''docs'']) \<or> truthy None \<longrightarrow>
         10 \<le> int (length a)
         \<and> int (length out) = max 10 (int (length (filter (language_matches [''fr'', ''python'']) a)))"
    from A v have ae: "a = sample_lexical @ [hd sample_vector] @ replicate 7 sample_dummy" by simp
    from mp [OF mx t]
    have "int (length out) = max 10 (int (length (filter (language_matches [''fr'', ''python'']) a)))"
      by (rule conjunct2)
    then have "int (length out) = 10" unfolding ae m .
    with AB show ?thesis by blast
  qed
qed

text \<open>
  The claim C7 as stated fails: with \<open>N = 10\<close>, no tag sets and no fused candidates the
  list is empty; with \<open>N = 1\<close>, no tag sets and two English candidates it has two entries.
\<close>

theorem stages_A_B_not_exactly_N:
  "stage_A_then_B sample_dummy 10 None None ''en'' [] = Inr []
   \<and> stage_A_then_B sample_dummy 1 None None ''en'' sample_lexical = Inr sample_lexical
   \<and> length sample_lexical = 2"
  by code_simp

section \<open>The retrieval session\<close>

lemma HybridRetriever_retrieve_sent:
  "snd (HybridRetriever_retrieve w self q avoid)
     = (if avoid then [] else [you_request (you_retriever self) q])"
  by (simp add: HybridRetriever_retrieve_def Let_def BaseRetriever_retrieve_snd)

lemma load_query_engine_keeps:
  "snd (load_query_engine self top_k language incl excl None) = self"
  "qe_retriever (fst (load_query_engine self top_k language incl excl None)) = retriever self"
  by (simp_all add: load_query_engine_def Let_def)

lemma Retriever_retrieve_sent:
  "snd (snd (Retriever_retrieve w self q args))
     = (if is_avoid_query self = Some True \<or> arg_is_avoid_query args = Some True then []
        else [you_request (you_retriever (retriever self)) q])"
  by (auto simp add: Retriever_retrieve_def Let_def load_query_engine_keeps
      WandbRetrieverQueryEngine_retrieve_def HybridRetriever_retrieve_sent or_bool_def to_bool_def
      split: sum.splits)

lemma Retriever_retrieve_session:
  "fst (snd (Retriever_retrieve w self q args))
     = (case fst (Retriever_retrieve w self q args) of
          Inl e \<Rightarrow> self
        | Inr outputs \<Rightarrow> self\<lparr>is_avoid_query := None\<rparr>)"
  by (auto simp add: Retriever_retrieve_def Let_def load_query_engine_keeps split: sum.splits)

text \<open>
  Claim C8. For every call of the session's \<^verbatim>\<open>retrieve\<close>, no request goes to the web
  source if and only if the stored one-shot flag or the call's explicit flag is true;
  otherwise exactly the one request of the web retriever is sent.
\<close>

theorem web_suppressed_iff_either_flag:
  "(snd (snd (Retriever_retrieve w self q args)) = []
      \<longleftrightarrow> is_avoid_query self = Some True \<or> arg_is_avoid_query args = Some True)
   \<and> (snd (snd (Retriever_retrieve w self q args)) \<noteq> []
      \<longleftrightarrow> snd (snd (Retriever_retrieve w self q args)) = [you_request (you_retriever (retriever self)) q])"
  by (simp add: Retriever_retrieve_sent)

theorem web_suppressed_iff_either_flag_witness:
  "snd (snd (Retriever_retrieve (sample_collaborators sample_lexical sample_vector one_hit)
        (sample_session (Some True)) ''q'' default_args)) = []
   \<and> snd (snd (Retriever_retrieve (sample_collaborators sample_lexical sample_vector one_hit)
        (sample_session None) ''q'' (default_args\<lparr>arg_is_avoid_query := Some True\<rparr>))) = []
   \<and> snd (snd (Retriever_retrieve (sample_collaborators sample_lexical sample_vector one_hit)
        (sample_session (Some False)) ''q'' (default_args\<lparr>arg_is_avoid_query := None\<rparr>)))
      = [you_request sample_you ''q'']"
proof -
  let ?w = "sample_collaborators sample_lexical sample_vector one_hit"
  have f1: "is_avoid_query (sample_session (Some True)) = Some True
      \<or> arg_is_avoid_query default_args = Some True"
    by (simp add: sample_session_def)
  have f2: "is_avoid_query (sample_session None) = Some True
      \<or> arg_is_avoid_query (default_args\<lparr>arg_is_avoid_query := Some True\<rparr>) = Some True"
    by simp
  have f3: "\<not> (is_avoid_query (sample_session (Some False)) = Some True
      \<or> arg_is_avoid_query (default_args\<lparr>arg_is_avoid_query := None\<rparr>) = Some True)"
    by (simp add: sample_session_def)
  have y: "you_retriever (retriever (sample_session (Some False))) = sample_you"
    by (simp add: sample_session_def)
  have 1: "snd (snd (Retriever_retrieve ?w (sample_session (Some True)) ''q'' default_args)) = []"
    using web_suppressed_iff_either_flag [of ?w "sample_session (Some True)" "''q''" default_args] f1
    by blast
  have 2: "snd (snd (Retriever_retrieve ?w (sample_session None) ''q''
        (default_args\<lparr>arg_is_avoid_query := Some True\<rparr>))) = []"
    using web_suppressed_iff_either_flag [of ?w "sample_session None" "''q''"
        "default_args\<lparr>arg_is_avoid_query := Some True\<rparr>"] f2
    by blast
  have "snd (snd (Retriever_retrieve ?w (sample_session (Some False)) ''q''
        (default_args\<lparr>arg_is_avoid_query := None\<rparr>)))
      = [you_request (you_retriever (retriever (sample_session (Some False)))) ''q'']"
    using web_suppressed_iff_either_flag [of ?w "sample_session (Some False)" "''q''"
        "default_args\<lparr>arg_is_avoid_query := None\<rparr>"] f3
    by blast
  then have 3: "snd (snd (Retriever_retrieve ?w (sample_session (Some False)) ''q''
        (default_args\<lparr>arg_is_avoid_query := None\<rparr>))) = [you_request sample_you ''q'']"
    unfolding y .
  from 1 2 3 show ?thesis by blast
qed

text \<open>
  Claim C9. After every \<^verbatim>\<open>retrieve\<close> call that completes, whatever its arguments, the
  stored one-shot flag is None and nothing else of the session has changed; so a following
  call whose explicit flag is not true sends its request to the web source.
\<close>

theorem stored_flag_cleared:
  assumes "Retriever_retrieve w self q args = (Inr outputs, self', sent)"
  shows "is_avoid_query self' = None
    \<and> self' = self\<lparr>is_avoid_query := None\<rparr>
    \<and> (arg_is_avoid_query args' \<noteq> Some True \<longrightarrow>
         snd (snd (Retriever_retrieve w' self' q' args'))
           = [you_request (you_retriever (retriever self)) q'])"
proof -
  from assms have "fst (Retriever_retrieve w self q args) = Inr outputs"
    and "fst (snd (Retriever_retrieve w self q args)) = self'"
    by simp_all
  then have s: "self' = self\<lparr>is_avoid_query := None\<rparr>"
    by (simp add: Retriever_retrieve_session)
  then show ?thesis by (simp add: Retriever_retrieve_sent)
qed

theorem stored_flag_cleared_witness:
  "fst (snd (Retriever_retrieve (sample_collaborators sample_lexical sample_vector one_hit)
        (sample_session (Some True)) ''q'' (default_args\<lparr>arg_is_avoid_query := Some True\<rparr>)))
     = sample_session None
   \<and> snd (snd (Retriever_retrieve (sample_collaborators sample_lexical sample_vector one_hit)
        (sample_session None) ''next'' default_args))
     = [you_request sample_you ''next'']"
proof -
  let ?w = "sample_collaborators sample_lexical sample_vector one_hit"
  let ?args = "default_args\<lparr>arg_is_avoid_query := Some True\<rparr>"
  have "\<not> isl (fst (Retriever_retrieve ?w (sample_session (Some True)) ''q'' ?args))"
    by code_simp
  then obtain outputs where
    "fst (Retriever_retrieve ?w (sample_session (Some True)) ''q'' ?args) = Inr outputs"
    by (cases "fst (Retriever_retrieve ?w (sample_session (Some True)) ''q'' ?args)") auto
  then obtain self' sent where
    r: "Retriever_retrieve ?w (sample_session (Some True)) ''q'' ?args = (Inr outputs, self', sent)"
    by (cases "Retriever_retrieve ?w (sample_session (Some True)) ''q'' ?args") auto
  have d: "arg_is_avoid_query default_args \<noteq> Some True"
    by (simp add: default_args_def)
  have c: "(sample_session (Some True))\<lparr>is_avoid_query := None\<rparr> = sample_session None"
    by (simp add: sample_session_def)
  have y: "you_retriever (retriever (sample_session (Some True))) = sample_you"
    by (simp add: sample_session_def)
  from stored_flag_cleared [OF r, where args' = default_args and w' = ?w and q' = "''next''"] d
  have s: "self' = (sample_session (Some True))\<lparr>is_avoid_query := None\<rparr>"
    and n: "snd (snd (Retriever_retrieve ?w self' ''next'' default_args))
           = [you_request (you_retriever (retriever (sample_session (Some True)))) ''next'']"
    by blast+
  from s have s': "self' = sample_session None" unfolding c .
  from n have n': "snd (snd (Retriever_retrieve ?w (sample_session None) ''next'' default_args))
           = [you_request sample_you ''next'']"
    unfolding s' y .
  from r have "fst (snd (Retriever_retrieve ?w (sample_session (Some True)) ''q'' ?args)) = self'"
    by simp
  with s' n' show ?thesis by simp
qed

text \<open>
  Claim C10. Whenever \<^verbatim>\<open>retrieve\<close> returns the empty list, \<^verbatim>\<open>__call__\<close> on the same
  input fails with an IndexError, from reading the first element for the log; there is
  such an input: empty index results, a failed web search and no tag sets.
\<close>

theorem call_fails_on_empty_result:
  assumes "fst (Retriever_retrieve w self q args) = Inr []"
  shows "fst (Retriever_call w self q args) = Inl IndexError
    \<and> snd (Retriever_call w self q args) = snd (Retriever_retrieve w self q args)"
  using assms by (simp add: Retriever_call_def Let_def)

theorem call_fails_on_empty_result_witness:
  "fst (Retriever_retrieve (sample_collaborators [] [] ConnectionFailed) (sample_session None)
        ''q'' default_args) = Inr []
   \<and> fst (Retriever_call (sample_collaborators [] [] ConnectionFailed) (sample_session None)
        ''q'' default_args) = Inl IndexError"
proof -
  have r: "fst (Retriever_retrieve (sample_collaborators [] [] ConnectionFailed) (sample_session None)
        ''q'' default_args) = Inr []"
    by code_simp
  from call_fails_on_empty_result [OF r] r show ?thesis by simp
qed

end
